theory Spec2Isabelle
  imports Complex_Main "HOL-Library.Word"
begin

section \<open>JavaScript strings\<close>

text \<open>
  A JavaScript string is a sequence of UTF-16 code units. The regular expressions of
  \<^verbatim>\<open>speakText\<close> carry no \<^verbatim>\<open>u\<close> flag, so they match code unit by code unit, and
  \<^verbatim>\<open>String.prototype.includes\<close> compares code units as well.
\<close>

type_synonym jschar = "16 word"
type_synonym jsstring = "jschar list"

definition ascii :: "string \<Rightarrow> jsstring" where
  "ascii cs = map (\<lambda>c. of_nat (of_char c)) cs"

text \<open>\<^verbatim>\<open>s.includes(p)\<close>: \<open>p\<close> occurs in \<open>s\<close> as a contiguous block.\<close>

fun includes_js :: "'a list \<Rightarrow> 'a list \<Rightarrow> bool" where
  "includes_js [] p = (p = [])"
| "includes_js (x # xs) p = (take (length p) (x # xs) = p \<or> includes_js xs p)"

subsection \<open>The text cleaning of \<^verbatim>\<open>speakText\<close>\<close>

text \<open>
  \<^verbatim>\<open>text.replace(/E1|E2|...|E12/g, '')\<close>: the scan goes from left to right; at each
  position the alternatives are tried in the order they are written, the first one that
  matches is deleted and the scan resumes behind it; where none matches, the code unit
  is kept. (An empty alternative would keep the code unit and advance by one; the
  source has none.)
\<close>

definition first_match :: "'a list list \<Rightarrow> 'a list \<Rightarrow> 'a list option" where
  "first_match pats s = find (\<lambda>p. take (length p) s = p) pats"

function delete_matches :: "'a list list \<Rightarrow> 'a list \<Rightarrow> 'a list" where
  "delete_matches pats [] = []"
| "delete_matches pats (x # xs) =
     (case first_match pats (x # xs) of
        None \<Rightarrow> x # delete_matches pats xs
      | Some p \<Rightarrow>
          if p = [] then x # delete_matches pats xs
          else delete_matches pats (drop (length p) (x # xs)))"
  by pat_completeness auto
termination
  by (relation "measure (\<lambda>(pats, s). length s)") (auto split: list.splits)

text \<open>
  The twelve alternatives of the first regular expression, as UTF-16 code units, in the
  order of the source: stethoscope, light bulb, pill, salad, warning sign with variation
  selector, warning sign, calendar, target, bar chart, shield with variation selector,
  runner, bust.
\<close>

definition emoji_pats :: "jsstring list" where
  "emoji_pats =
     [[0xD83E, 0xDE7A], [0xD83D, 0xDCA1], [0xD83D, 0xDC8A], [0xD83E, 0xDD57],
      [0x26A0, 0xFE0F], [0x26A0], [0xD83D, 0xDCC5], [0xD83C, 0xDFAF],
      [0xD83D, 0xDCCA], [0xD83D, 0xDEE1, 0xFE0F], [0xD83C, 0xDFC3], [0xD83D, 0xDC64]]"

definition remove_emoji :: "jsstring \<Rightarrow> jsstring" where
  "remove_emoji s = delete_matches emoji_pats s"

text \<open>\<^verbatim>\<open>.replace(/B+/g, '')\<close>, where \<open>B\<close> is the box-drawing bar U+2501: every maximal run is deleted.\<close>

definition bar :: jschar where "bar = 0x2501"
definition star :: jschar where "star = 0x2A"
definition newline :: jschar where "newline = 0x0A"

function remove_bars :: "jsstring \<Rightarrow> jsstring" where
  "remove_bars [] = []"
| "remove_bars (x # xs) =
     (if x = bar then remove_bars (dropWhile (\<lambda>c. c = bar) xs)
      else x # remove_bars xs)"
  by pat_completeness auto
termination
  by (relation "measure length") (auto simp: length_dropWhile_le less_Suc_eq_le)

text \<open>\<^verbatim>\<open>.replace(/\*\*/g, '')\<close>: non-overlapping pairs of stars, leftmost first.\<close>

fun remove_bold :: "jsstring \<Rightarrow> jsstring" where
  "remove_bold (a # b # rest) =
     (if a = star \<and> b = star then remove_bold rest else a # remove_bold (b # rest))"
| "remove_bold xs = xs"

text \<open>
  \<^verbatim>\<open>.replace(/\n{3,}/g, '\n\n')\<close>: the quantifier is greedy, so a match takes the whole
  run of newlines that starts at the position, when the run has at least three.
\<close>

function collapse_newlines :: "jsstring \<Rightarrow> jsstring" where
  "collapse_newlines [] = []"
| "collapse_newlines (x # xs) =
     (if x = newline \<and> 3 \<le> length (takeWhile (\<lambda>c. c = newline) (x # xs))
      then newline # newline # collapse_newlines (dropWhile (\<lambda>c. c = newline) xs)
      else x # collapse_newlines xs)"
  by pat_completeness auto
termination
  by (relation "measure length") (auto simp: length_dropWhile_le less_Suc_eq_le)

definition cleanText :: "jsstring \<Rightarrow> jsstring" where
  "cleanText t = collapse_newlines (remove_bold (remove_bars (remove_emoji t)))"

text \<open>
  \<^verbatim>\<open>String.prototype.trim\<close> removes the white space and line terminator code units of
  ECMAScript from both ends.
\<close>

definition is_js_space :: "jschar \<Rightarrow> bool" where
  "is_js_space c \<longleftrightarrow>
     c \<in> set [0x09, 0x0A, 0x0B, 0x0C, 0x0D, 0x20, 0xA0, 0x1680, 0x2000, 0x2001, 0x2002,
              0x2003, 0x2004, 0x2005, 0x2006, 0x2007, 0x2008, 0x2009, 0x200A, 0x2028,
              0x2029, 0x202F, 0x205F, 0x3000, 0xFEFF]"

definition js_trim :: "jsstring \<Rightarrow> jsstring" where
  "js_trim s = rev (dropWhile is_js_space (rev (dropWhile is_js_space s)))"

section \<open>Values, errors and the collaborators' data\<close>

text \<open>
  Values that arrive from the backend as parsed JSON, and \<^verbatim>\<open>undefined\<close> for a property
  that is absent. An object is its list of properties (keys distinct, as
  \<^verbatim>\<open>JSON.parse\<close> leaves them). A number is the IEEE 754 double \<^verbatim>\<open>JSON.parse\<close> yields,
  kept as its 64 bits: the sign in bit 63, the exponent in bits 62 to 52, the fraction in
  bits 51 to 0.
\<close>

datatype jsval =
    JUndefined | JNull | JBool bool | JNum "64 word" | JStr jsstring
  | JArr "jsval list" | JObj "(string \<times> jsval) list"

text \<open>A double is zero when all bits but the sign are clear, and not a number when
  the exponent bits are all set and the fraction is not zero.\<close>

definition is_zero64 :: "64 word \<Rightarrow> bool" where
  "is_zero64 w \<longleftrightarrow> take_bit 63 w = 0"

definition is_nan64 :: "64 word \<Rightarrow> bool" where
  "is_nan64 w \<longleftrightarrow> drop_bit 52 (take_bit 63 w) = 0x7FF \<and> take_bit 52 w \<noteq> 0"

datatype js_error = TypeError | SyntaxError | FetchFailed

text \<open>
  Reading a property \<^verbatim>\<open>v.k\<close>: a \<^verbatim>\<open>TypeError\<close> on \<^verbatim>\<open>undefined\<close> and \<^verbatim>\<open>null\<close>;
  \<^verbatim>\<open>undefined\<close> where the property is absent. The property names the source reads
  (\<^verbatim>\<open>session_id\<close>, \<^verbatim>\<open>patient_data\<close>, \<^verbatim>\<open>response\<close>, \<^verbatim>\<open>message\<close>, \<^verbatim>\<open>name\<close>) exist
  on no primitive and on no array.
\<close>

fun get_prop :: "jsval \<Rightarrow> string \<Rightarrow> js_error + jsval" where
  "get_prop JUndefined k = Inl TypeError"
| "get_prop JNull k = Inl TypeError"
| "get_prop (JObj kvs) k = Inr (case map_of kvs k of None \<Rightarrow> JUndefined | Some v \<Rightarrow> v)"
| "get_prop v k = Inr JUndefined"

fun truthy :: "jsval \<Rightarrow> bool" where
  "truthy JUndefined = False"
| "truthy JNull = False"
| "truthy (JBool b) = b"
| "truthy (JNum w) = (\<not> is_zero64 w \<and> \<not> is_nan64 w)"
| "truthy (JStr t) = (t \<noteq> [])"
| "truthy v = True"

text \<open>What a \<^verbatim>\<open>fetch\<close> followed by \<^verbatim>\<open>response.json()\<close> can deliver: the fetch is
  rejected, or a response arrives with its status code and a body that parses as JSON
  (\<open>Some\<close>) or does not (\<open>None\<close>).\<close>

datatype fetch_outcome = NetworkFailure | Response nat "jsval option"

record voice =
  vname :: jsstring
  vlang :: jsstring

record utterance =
  utext :: jsstring
  urate :: rat
  upitch :: rat
  uvolume :: rat
  ulang :: jsstring
  uvoice :: "voice option"

section \<open>Voice selection\<close>

text \<open>The predicate of the first \<^verbatim>\<open>voices.find\<close> and of the second one.\<close>

definition preferred :: "voice \<Rightarrow> bool" where
  "preferred v \<longleftrightarrow>
     (includes_js (vlang v) (ascii ''en-US'') \<or> includes_js (vlang v) (ascii ''en-GB'')) \<and>
     (includes_js (vname v) (ascii ''Female'') \<or>
      includes_js (vname v) (ascii ''Samantha'') \<or>
      includes_js (vname v) (ascii ''Victoria'') \<or>
      includes_js (vname v) (ascii ''Google'') \<or>
      includes_js (vname v) (ascii ''Microsoft''))"

definition lang_has_en :: "voice \<Rightarrow> bool" where
  "lang_has_en v \<longleftrightarrow> includes_js (vlang v) (ascii ''en'')"

text \<open>
  \<^verbatim>\<open>voices.find(p1) || voices.find(p2) || voices[0]\<close>, inside
  \<^verbatim>\<open>if (voices.length > 0)\<close>: with no voice the utterance keeps its default
  \<^verbatim>\<open>voice = null\<close>, which is \<open>None\<close> here.
\<close>

definition preferredVoice :: "voice list \<Rightarrow> voice option" where
  "preferredVoice vs =
     (case vs of
        [] \<Rightarrow> None
      | v0 # _ \<Rightarrow>
          (case find preferred vs of
             Some v \<Rightarrow> Some v
           | None \<Rightarrow> (case find lang_has_en vs of Some v \<Rightarrow> Some v | None \<Rightarrow> Some v0)))"

section \<open>The page state\<close>

text \<open>
  The fixed texts the page shows: the voice status line, with its type \<^verbatim>\<open>'info'\<close> or
  \<^verbatim>\<open>'error'\<close>, and the notifications, with their type.
\<close>

datatype level = Info | Error | Success

datatype status_msg =
    Listening
  | VoiceInputReceived jsstring
  | RecognitionError jsstring
  | InputPaused
  | AISpeaking
  | ReadyToListen

datatype notice =
    RecognitionUnsupported
  | SynthesisUnsupported
  | SpeechError jsstring
  | AutoSpeakEnabled
  | AutoSpeakDisabled
  | ContinuousEnabled
  | ContinuousDisabled
  | ConsultationStarted
  | ConnectFailed

datatype role = User | Doctor

text \<open>
  What the page does to the outside: calls to the listener (\<^verbatim>\<open>recognition.start()\<close>,
  \<^verbatim>\<open>recognition.stop()\<close>), calls to the speaker (\<^verbatim>\<open>speechSynthesis.cancel()\<close>,
  \<^verbatim>\<open>speechSynthesis.speak(u)\<close>), requests to the backend, and what it shows.
  Console output is not recorded.
\<close>

datatype effect =
    RecStart
  | RecStop
  | SynthCancel
  | SynthSpeak "utterance option"
  | VoiceStatus status_msg level
  | HideVoiceStatus
  | Notify notice level
  | HideNotification
  | RecordingIndicator bool
  | AutoSpeakIndicator bool
  | ContinuousButton bool
  | IconSpeaking bool
  | AddMessage role jsval
  | ClearChat
  | ShowLoading bool
  | SessionInfo "jsval option" jsval
  | FetchStartSession
  | FetchChat jsval jsstring

text \<open>The callbacks handed to \<^verbatim>\<open>setTimeout\<close>, one constructor for each call site.\<close>

datatype task =
    TSendMessage
  | THideVoiceStatus
  | TRestartAfterRecError
  | TRestartAfterRecEnd
  | TRestartAfterSpeechEnd
  | TRestartAfterSpeechError
  | TSpeakUtterance
  | THideNotification
  | TIconReset

text \<open>
  The global variables of the script, together with what it reads from the browser
  (whether the two capabilities exist, the voices \<^verbatim>\<open>getVoices()\<close> returns, the value of
  the message input), the timers that are pending, each with its delay in milliseconds,
  and the effects so far. \<open>recognition\<close> tells whether the variable holds an object or
  \<^verbatim>\<open>null\<close>. Every entry of \<open>trace\<close> carries the values of \<open>isRecording\<close> and
  \<open>isSpeaking\<close> at the instant of the effect.
\<close>

record state =
  recSupported :: bool
  synthSupported :: bool
  voices :: "voice list"
  messageInput :: jsstring
  sessionId :: jsval
  patientData :: jsval
  recognition :: bool
  isRecording :: bool
  autoSpeak :: bool
  currentUtterance :: "utterance option"
  isSpeaking :: bool
  continuousMode :: bool
  timers :: "(nat \<times> task) list"
  trace :: "(effect \<times> bool \<times> bool) list"

text \<open>The state when the script has been read: lines 3 to 13 of the source.\<close>

definition init_state :: "bool \<Rightarrow> bool \<Rightarrow> voice list \<Rightarrow> state" where
  "init_state rs ss vs =
     \<lparr>recSupported = rs, synthSupported = ss, voices = vs, messageInput = [],
      sessionId = JNull, patientData = JObj [], recognition = False,
      isRecording = False, autoSpeak = False, currentUtterance = None,
      isSpeaking = False, continuousMode = False, timers = [], trace = []\<rparr>"

text \<open>
  A function of the script either returns or throws; what it did to the state before it
  threw stays done. \<open>(None, s)\<close> is a return, \<open>(Some e, s)\<close> a throw.
\<close>

type_synonym result = "js_error option \<times> state"

definition seq :: "result \<Rightarrow> (state \<Rightarrow> result) \<Rightarrow> result" where
  "seq r f = (case r of (None, s) \<Rightarrow> f s | (Some e, s) \<Rightarrow> (Some e, s))"

definition try_catch :: "result \<Rightarrow> (state \<Rightarrow> result) \<Rightarrow> result" where
  "try_catch r h = (case r of (None, s) \<Rightarrow> (None, s) | (Some e, s) \<Rightarrow> h s)"

definition emit :: "effect \<Rightarrow> state \<Rightarrow> state" where
  "emit e s = s\<lparr>trace := trace s @ [(e, isRecording s, isSpeaking s)]\<rparr>"

definition effects :: "state \<Rightarrow> effect list" where
  "effects s = map fst (trace s)"

definition setTimeout :: "task \<Rightarrow> nat \<Rightarrow> state \<Rightarrow> state" where
  "setTimeout t d s = s\<lparr>timers := timers s @ [(d, t)]\<rparr>"

section \<open>The functions of the script\<close>

definition showNotification :: "notice \<Rightarrow> level \<Rightarrow> state \<Rightarrow> state" where
  "showNotification m ty s = setTimeout THideNotification 3000 (emit (Notify m ty) s)"

definition updateVoiceStatus :: "status_msg \<Rightarrow> level \<Rightarrow> state \<Rightarrow> state" where
  "updateVoiceStatus m ty s = emit (VoiceStatus m ty) s"

definition hideVoiceStatus :: "state \<Rightarrow> state" where
  "hideVoiceStatus s = emit HideVoiceStatus s"

definition stopRecording :: "state \<Rightarrow> state" where
  "stopRecording s = emit (RecordingIndicator False) (s\<lparr>isRecording := False\<rparr>)"

text \<open>
  \<^verbatim>\<open>window.speechSynthesis.cancel()\<close> throws where the browser has no speech synthesis,
  and then the assignment behind it is not reached.
\<close>

definition stopSpeaking :: "state \<Rightarrow> result" where
  "stopSpeaking s =
     (if synthSupported s then (None, (emit SynthCancel s)\<lparr>isSpeaking := False\<rparr>)
      else (Some TypeError, s))"

text \<open>
  \<^verbatim>\<open>initSpeechRecognition\<close> creates the listener object and installs its four handlers,
  or reports that the browser has none. The handlers are \<open>rec_onstart\<close>, \<open>rec_onresult\<close>,
  \<open>rec_onerror\<close> and \<open>rec_onend\<close> below.
\<close>

definition initSpeechRecognition :: "state \<Rightarrow> state" where
  "initSpeechRecognition s =
     (if recSupported s then s\<lparr>recognition := True\<rparr>
      else showNotification RecognitionUnsupported Error s)"

text \<open>
  \<^verbatim>\<open>recognition.start()\<close> sits in a \<^verbatim>\<open>try\<close> whose \<^verbatim>\<open>catch\<close> only writes to the console:
  with \<open>recognition\<close> still \<^verbatim>\<open>null\<close> the call throws before it reaches the listener, and
  where the listener itself rejects the call nothing else happens either.
\<close>

definition startListening :: "state \<Rightarrow> state" where
  "startListening s =
     (let s1 = (if \<not> recognition s then initSpeechRecognition s else s) in
      if isSpeaking s1 then s1
      else if \<not> isRecording s1 then (if recognition s1 then emit RecStart s1 else s1)
      else s1)"

text \<open>\<^verbatim>\<open>recognition.stop()\<close> outside any \<^verbatim>\<open>try\<close>.\<close>

definition recognition_stop :: "state \<Rightarrow> result" where
  "recognition_stop s = (if recognition s then (None, emit RecStop s) else (Some TypeError, s))"

definition toggleVoiceInput :: "state \<Rightarrow> result" where
  "toggleVoiceInput s =
     (let s1 = (if \<not> recognition s then initSpeechRecognition s else s) in
      if isRecording s1 then recognition_stop s1 else (None, startListening s1))"

definition rec_onstart :: "state \<Rightarrow> result" where
  "rec_onstart s =
     (let s1 = emit (RecordingIndicator True) (s\<lparr>isRecording := True\<rparr>);
          s2 = updateVoiceStatus Listening Info s1
      in if isSpeaking s2 then stopSpeaking s2 else (None, s2))"

definition rec_onresult :: "jsstring \<Rightarrow> state \<Rightarrow> state" where
  "rec_onresult transcript s =
     (let s1 = s\<lparr>messageInput := transcript\<rparr>;
          s2 = updateVoiceStatus (VoiceInputReceived transcript) Info s1
      in if continuousMode s2 then setTimeout TSendMessage 500 s2
         else setTimeout THideVoiceStatus 2000 s2)"

definition rec_onerror :: "jsstring \<Rightarrow> state \<Rightarrow> state" where
  "rec_onerror err s =
     (let s1 = (if continuousMode s \<and> (err = ascii ''aborted'' \<or> err = ascii ''no-speech'')
                then s
                else updateVoiceStatus (RecognitionError err) Error s);
          s2 = stopRecording s1
      in if continuousMode s2 \<and> err \<noteq> ascii ''aborted'' \<and> err \<noteq> ascii ''no-speech''
         then setTimeout TRestartAfterRecError 1000 s2
         else s2)"

definition rec_onend :: "state \<Rightarrow> state" where
  "rec_onend s =
     (let s1 = stopRecording s
      in if continuousMode s1 \<and> \<not> isSpeaking s1 then setTimeout TRestartAfterRecEnd 500 s1
         else s1)"

text \<open>
  \<^verbatim>\<open>speakText(text)\<close>. The four \<^verbatim>\<open>replace\<close> calls throw when \<^verbatim>\<open>text\<close> is not a string;
  by then the cancel and the stop request have been made.
\<close>

definition new_utterance :: "jsstring \<Rightarrow> voice list \<Rightarrow> utterance" where
  "new_utterance t vs =
     \<lparr>utext = t, urate = 85 / 100, upitch = 11 / 10, uvolume = 1, ulang = ascii ''en-US'',
      uvoice = preferredVoice vs\<rparr>"

definition speakText :: "jsval \<Rightarrow> state \<Rightarrow> result" where
  "speakText txt s =
     (if \<not> synthSupported s then (None, showNotification SynthesisUnsupported Error s)
      else
        let s1 = (if isSpeaking s then emit SynthCancel s else s);
            r2 = (if isRecording s1
                  then seq (recognition_stop s1) (\<lambda>s'. (None, updateVoiceStatus InputPaused Info s'))
                  else (None, s1))
        in seq r2 (\<lambda>s2.
             case txt of
               JStr t \<Rightarrow>
                 (None, setTimeout TSpeakUtterance 100
                    (s2\<lparr>currentUtterance := Some (new_utterance (cleanText t) (voices s2))\<rparr>))
             | _ \<Rightarrow> (Some TypeError, s2)))"

text \<open>The three handlers \<^verbatim>\<open>speakText\<close> installs on each utterance.\<close>

definition utt_onstart :: "state \<Rightarrow> state" where
  "utt_onstart s = updateVoiceStatus AISpeaking Info (s\<lparr>isSpeaking := True\<rparr>)"

definition utt_onend :: "state \<Rightarrow> state" where
  "utt_onend s =
     (let s1 = s\<lparr>isSpeaking := False\<rparr>
      in if continuousMode s1 then setTimeout TRestartAfterSpeechEnd 800 s1
         else hideVoiceStatus s1)"

definition utt_onerror :: "jsstring \<Rightarrow> state \<Rightarrow> state" where
  "utt_onerror err s =
     (let s1 = s\<lparr>isSpeaking := False\<rparr>;
          s2 = (if err \<noteq> ascii ''interrupted'' then showNotification (SpeechError err) Error s1
                else s1)
      in if continuousMode s2 \<and> \<not> isRecording s2 then setTimeout TRestartAfterSpeechError 1000 s2
         else s2)"

definition toggleAutoSpeak :: "state \<Rightarrow> result" where
  "toggleAutoSpeak s =
     (let s1 = s\<lparr>autoSpeak := \<not> autoSpeak s\<rparr>
      in if autoSpeak s1
         then (None, showNotification AutoSpeakEnabled Success (emit (AutoSpeakIndicator True) s1))
         else seq (stopSpeaking (emit (AutoSpeakIndicator False) s1))
                (\<lambda>s2. (None, showNotification AutoSpeakDisabled Info s2)))"

definition toggleContinuousMode :: "state \<Rightarrow> result" where
  "toggleContinuousMode s =
     (let s1 = s\<lparr>continuousMode := \<not> continuousMode s\<rparr>
      in if continuousMode s1
         then
           let s2 = emit (ContinuousButton True) s1;
               s3 = (if \<not> autoSpeak s2 then emit (AutoSpeakIndicator True) (s2\<lparr>autoSpeak := True\<rparr>)
                     else s2);
               s4 = showNotification ContinuousEnabled Success s3
           in (None, startListening s4)
         else
           let s2 = showNotification ContinuousDisabled Info (emit (ContinuousButton False) s1);
               r3 = (if isRecording s2 then recognition_stop s2 else (None, s2))
           in seq r3 stopSpeaking)"

subsection \<open>Session and chat\<close>

text \<open>
  \<^verbatim>\<open>updateSessionInfo\<close> reads \<^verbatim>\<open>patientData.name\<close>, which throws when \<open>patientData\<close> is
  \<^verbatim>\<open>undefined\<close> or \<^verbatim>\<open>null\<close>, and shows the patient's name when it is truthy, with the
  session identifier.
\<close>

definition updateSessionInfo :: "state \<Rightarrow> result" where
  "updateSessionInfo s =
     (case get_prop (patientData s) ''name'' of
        Inl e \<Rightarrow> (Some e, s)
      | Inr n \<Rightarrow> (None, emit (SessionInfo (if truthy n then Some n else None) (sessionId s)) s))"

text \<open>
  \<^verbatim>\<open>addMessage(type, text)\<close> appends the message to the chat; a doctor's message gets a
  speaker icon when the browser has speech synthesis, whose click handler is
  \<open>icon_click\<close>.
\<close>

definition addMessage :: "role \<Rightarrow> jsval \<Rightarrow> state \<Rightarrow> state" where
  "addMessage r txt s = emit (AddMessage r txt) s"

definition icon_click :: "jsval \<Rightarrow> state \<Rightarrow> result" where
  "icon_click txt s =
     (if isSpeaking s
      then seq (stopSpeaking s) (\<lambda>s1. (None, emit (IconSpeaking False) s1))
      else seq (speakText txt s)
             (\<lambda>s1. (None, setTimeout TIconReset 3000 (emit (IconSpeaking True) s1))))"

definition showLoading :: "bool \<Rightarrow> state \<Rightarrow> state" where
  "showLoading b s = emit (ShowLoading b) s"

text \<open>The text of the fallback reply: a cross mark (U+274C) and an apology.\<close>

definition fallback_reply :: jsstring where
  "fallback_reply = 0x274C # ascii '' Sorry, there was an error. Please try again.''"

text \<open>
  \<^verbatim>\<open>sendMessage\<close> is asynchronous. \<open>sendMessage\<close> is the part that runs at the call, up
  to the \<^verbatim>\<open>fetch\<close>; \<open>sendMessage_resume\<close> is the part that runs when the fetch and
  \<^verbatim>\<open>response.json()\<close> have settled: the rest of the \<^verbatim>\<open>try\<close> block, the \<^verbatim>\<open>catch\<close> and the
  \<^verbatim>\<open>finally\<close>. Neither \<^verbatim>\<open>response.ok\<close> nor the status is read.
\<close>

definition sendMessage :: "state \<Rightarrow> state" where
  "sendMessage s =
     (let message = js_trim (messageInput s)
      in if message = [] then s
         else
           let s1 = addMessage User (JStr message) s;
               s2 = s1\<lparr>messageInput := []\<rparr>;
               s3 = showLoading True s2
           in emit (FetchChat (sessionId s3) message) s3)"

definition await_json :: "fetch_outcome \<Rightarrow> js_error + jsval" where
  "await_json r =
     (case r of
        NetworkFailure \<Rightarrow> Inl FetchFailed
      | Response status None \<Rightarrow> Inl SyntaxError
      | Response status (Some d) \<Rightarrow> Inr d)"

definition chat_try :: "fetch_outcome \<Rightarrow> state \<Rightarrow> result" where
  "chat_try r s =
     (case await_json r of
        Inl e \<Rightarrow> (Some e, s)
      | Inr d \<Rightarrow>
          (case get_prop d ''session_id'' of
             Inl e \<Rightarrow> (Some e, s)
           | Inr sid \<Rightarrow>
               (case get_prop d ''patient_data'' of
                  Inl e \<Rightarrow> (Some e, s\<lparr>sessionId := sid\<rparr>)
                | Inr pd \<Rightarrow>
                    seq (updateSessionInfo (s\<lparr>sessionId := sid, patientData := pd\<rparr>))
                      (\<lambda>s3.
                         case get_prop d ''response'' of
                           Inl e \<Rightarrow> (Some e, s3)
                         | Inr reply \<Rightarrow>
                             let s4 = addMessage Doctor reply s3
                             in if autoSpeak s4 \<or> continuousMode s4 then speakText reply s4
                                else (None, s4)))))"

definition sendMessage_resume :: "fetch_outcome \<Rightarrow> state \<Rightarrow> state" where
  "sendMessage_resume r s =
     showLoading False
       (snd (try_catch (chat_try r s)
               (\<lambda>s1. (None, addMessage Doctor (JStr fallback_reply) s1))))"

text \<open>
  \<^verbatim>\<open>startNewSession\<close>, split in the same way. \<open>window.onload\<close> awaits it and then calls
  \<^verbatim>\<open>initSpeechRecognition\<close>.
\<close>

definition startNewSession :: "state \<Rightarrow> state" where
  "startNewSession s = emit FetchStartSession s"

definition session_try :: "fetch_outcome \<Rightarrow> state \<Rightarrow> result" where
  "session_try r s =
     (case await_json r of
        Inl e \<Rightarrow> (Some e, s)
      | Inr d \<Rightarrow>
          (case get_prop d ''session_id'' of
             Inl e \<Rightarrow> (Some e, s)
           | Inr sid \<Rightarrow>
               seq (updateSessionInfo (s\<lparr>sessionId := sid\<rparr>))
                 (\<lambda>s2.
                    case get_prop d ''message'' of
                      Inl e \<Rightarrow> (Some e, s2)
                    | Inr m \<Rightarrow>
                        seq (if autoSpeak s2 then speakText m (addMessage Doctor m s2)
                             else (None, addMessage Doctor m s2))
                          (\<lambda>s3. (None, showNotification ConsultationStarted Success s3)))))"

definition startNewSession_resume :: "fetch_outcome \<Rightarrow> state \<Rightarrow> state" where
  "startNewSession_resume r s =
     snd (try_catch (session_try r s) (\<lambda>s1. (None, showNotification ConnectFailed Error s1)))"

definition onload_resume :: "fetch_outcome \<Rightarrow> state \<Rightarrow> state" where
  "onload_resume r s = initSpeechRecognition (startNewSession_resume r s)"

text \<open>\<^verbatim>\<open>restartSession\<close>, with the answer to its \<^verbatim>\<open>confirm\<close> dialogue.\<close>

definition restartSession :: "bool \<Rightarrow> state \<Rightarrow> result" where
  "restartSession confirmed s =
     (if \<not> confirmed then (None, s)
      else
        seq (if continuousMode s then toggleContinuousMode s else (None, s))
          (\<lambda>s1. seq (stopSpeaking s1)
             (\<lambda>s2. (None, startNewSession ((emit ClearChat s2)\<lparr>patientData := JObj []\<rparr>)))))"

subsection \<open>Timers\<close>

text \<open>What each callback handed to \<^verbatim>\<open>setTimeout\<close> does when it runs.\<close>

fun fire :: "task \<Rightarrow> state \<Rightarrow> state" where
  "fire TSendMessage s = sendMessage s"
| "fire THideVoiceStatus s = hideVoiceStatus s"
| "fire TRestartAfterRecError s =
     (if continuousMode s \<and> \<not> isSpeaking s then startListening s else s)"
| "fire TRestartAfterRecEnd s = (if continuousMode s then startListening s else s)"
| "fire TRestartAfterSpeechEnd s =
     (if continuousMode s \<and> \<not> isRecording s
      then startListening (updateVoiceStatus ReadyToListen Info s) else s)"
| "fire TRestartAfterSpeechError s = startListening s"
| "fire TSpeakUtterance s = emit (SynthSpeak (currentUtterance s)) s"
| "fire THideNotification s = emit HideNotification s"
| "fire TIconReset s = emit (IconSpeaking False) s"

section \<open>The event loop\<close>

text \<open>
  The script runs on one event loop: a user action, a callback of one of the two
  capabilities, a timer that fires, or a fetch that settles, runs its handler to the end
  before the next one starts. The callbacks of the listener exist once the listener
  object does, those of an utterance once one has been built; a timer fires only while
  it is pending, and is then removed. An exception that leaves a handler ends that
  handler and nothing else. The order of the events is not constrained otherwise: a
  pending timer may fire at any later moment.
  The handlers for the consultation summary, the PDF viewer and the history are outside
  this model.
\<close>

datatype event =
    UToggleVoiceInput
  | UToggleAutoSpeak
  | UToggleContinuousMode
  | UType jsstring
  | USend
  | UIconClick jsval
  | URestartSession bool
  | RecOnStart
  | RecOnResult jsstring
  | RecOnError jsstring
  | RecOnEnd
  | UttOnStart
  | UttOnEnd
  | UttOnError jsstring
  | TimerFires nat task
  | PageLoad
  | PageLoadSettled fetch_outcome
  | SessionSettled fetch_outcome
  | ChatSettled fetch_outcome
  | VoicesChanged "voice list"

fun step :: "event \<Rightarrow> state \<Rightarrow> state" where
  "step UToggleVoiceInput s = snd (toggleVoiceInput s)"
| "step UToggleAutoSpeak s = snd (toggleAutoSpeak s)"
| "step UToggleContinuousMode s = snd (toggleContinuousMode s)"
| "step (UType t) s = s\<lparr>messageInput := t\<rparr>"
| "step USend s = sendMessage s"
| "step (UIconClick txt) s = (if synthSupported s then snd (icon_click txt s) else s)"
| "step (URestartSession c) s = snd (restartSession c s)"
| "step RecOnStart s = (if recognition s then snd (rec_onstart s) else s)"
| "step (RecOnResult t) s = (if recognition s then rec_onresult t s else s)"
| "step (RecOnError e) s = (if recognition s then rec_onerror e s else s)"
| "step RecOnEnd s = (if recognition s then rec_onend s else s)"
| "step UttOnStart s = (if currentUtterance s \<noteq> None then utt_onstart s else s)"
| "step UttOnEnd s = (if currentUtterance s \<noteq> None then utt_onend s else s)"
| "step (UttOnError e) s = (if currentUtterance s \<noteq> None then utt_onerror e s else s)"
| "step (TimerFires d t) s =
     (if (d, t) \<in> set (timers s) then fire t (s\<lparr>timers := remove1 (d, t) (timers s)\<rparr>)
      else s)"
| "step PageLoad s = startNewSession s"
| "step (PageLoadSettled r) s = onload_resume r s"
| "step (SessionSettled r) s = startNewSession_resume r s"
| "step (ChatSettled r) s = sendMessage_resume r s"
| "step (VoicesChanged vs) s = s\<lparr>voices := vs\<rparr>"

fun run :: "event list \<Rightarrow> state \<Rightarrow> state" where
  "run [] s = s"
| "run (e # es) s = run es (step e s)"

text \<open>
  What holds of the two activity flags in every state the page can reach: the listener
  is flagged active only when its object exists, the speaker only when the browser has
  speech synthesis.
\<close>

definition wf :: "state \<Rightarrow> bool" where
  "wf s \<longleftrightarrow> (\<not> isRecording s \<or> recognition s) \<and> (\<not> isSpeaking s \<or> synthSupported s)
            \<and> (currentUtterance s = None \<or> synthSupported s)"

section \<open>Notions used in the statements\<close>

text \<open>The effects added between a state and a later one.\<close>

definition emitted :: "state \<Rightarrow> state \<Rightarrow> effect list" where
  "emitted s s' = drop (length (effects s)) (effects s')"

text \<open>The timers added between a state and a later one, and the tasks that restart the
  listener.\<close>

definition scheduled :: "state \<Rightarrow> state \<Rightarrow> (nat \<times> task) list" where
  "scheduled s s' = drop (length (timers s)) (timers s')"

fun is_restart :: "task \<Rightarrow> bool" where
  "is_restart TRestartAfterRecError = True"
| "is_restart TRestartAfterRecEnd = True"
| "is_restart TRestartAfterSpeechEnd = True"
| "is_restart TRestartAfterSpeechError = True"
| "is_restart t = False"

definition restarts_scheduled :: "state \<Rightarrow> state \<Rightarrow> nat" where
  "restarts_scheduled s s' = length (filter (\<lambda>(d, t). is_restart t) (scheduled s s'))"

text \<open>
  A state in continuous mode with the listener active: the mode has been switched on
  and the listener has reported its start.
\<close>

definition listening_state :: state where
  "listening_state = run [UToggleContinuousMode, RecOnStart] (init_state True True [])"

text \<open>
  A consultation that has started: the page has loaded and the backend has answered
  with a session identifier and a greeting. In \<open>sent_state\<close> the user has then typed a
  message and sent it, so that the answer to \<open>POST /chat\<close> is awaited.
\<close>

definition loaded_state :: state where
  "loaded_state =
     run [PageLoad,
          PageLoadSettled (Response 200 (Some (JObj
            [(''session_id'', JStr (ascii ''s1'')), (''message'', JStr (ascii ''Hi''))])))]
       (init_state True True [])"

definition sent_state :: state where
  "sent_state = run [UType (ascii ''hello''), USend] loaded_state"

text \<open>
  A state in which the speaker is active and the listener is not: the icon of the
  greeting has been clicked, the utterance has been handed over and has started.
\<close>

definition speaking_state :: state where
  "speaking_state =
     run [UIconClick (JStr (ascii ''Hi'')), TimerFires 100 TSpeakUtterance, UttOnStart]
       loaded_state"

text \<open>An error answer of the backend to \<open>POST /chat\<close>: status 404 with a JSON body.\<close>

definition not_found_response :: fetch_outcome where
  "not_found_response =
     Response 404 (Some (JObj [(''detail'', JStr (ascii ''Session not found''))]))"

text \<open>
  The greeting is played by a click on its icon and has started; the user switches
  continuous mode on; the speaker reports an error, which schedules the restart of the
  listener after one second; within that second the user switches continuous mode off.
\<close>

definition mode_off_before_restart :: state where
  "mode_off_before_restart =
     run [UIconClick (JStr (ascii ''Hi'')), TimerFires 100 TSpeakUtterance, UttOnStart,
          UToggleContinuousMode, UttOnError (ascii ''synthesis-failed''),
          UToggleContinuousMode]
       loaded_state"

subsection \<open>The voice selection as the specification words it\<close>

text \<open>
  The specification gives three preferences with one notion of an English voice: an
  English voice whose name contains one of the five names, then any English voice, then
  the first voice. \<open>spec_preferredVoice\<close> follows these words, for a given reading of
  ``English''. The script uses two tests: the language tag contains \<open>en-US\<close> or
  \<open>en-GB\<close> in the first preference, and contains \<open>en\<close> in the second.
\<close>

definition name_preferred :: "voice \<Rightarrow> bool" where
  "name_preferred v \<longleftrightarrow>
     includes_js (vname v) (ascii ''Female'') \<or> includes_js (vname v) (ascii ''Samantha'') \<or>
     includes_js (vname v) (ascii ''Victoria'') \<or> includes_js (vname v) (ascii ''Google'') \<or>
     includes_js (vname v) (ascii ''Microsoft'')"

definition lang_en_US_GB :: "voice \<Rightarrow> bool" where
  "lang_en_US_GB v \<longleftrightarrow>
     includes_js (vlang v) (ascii ''en-US'') \<or> includes_js (vlang v) (ascii ''en-GB'')"

definition spec_preferredVoice :: "(voice \<Rightarrow> bool) \<Rightarrow> voice list \<Rightarrow> voice option" where
  "spec_preferredVoice english vs =
     (case vs of
        [] \<Rightarrow> None
      | v0 # _ \<Rightarrow>
          (case find (\<lambda>v. english v \<and> name_preferred v) vs of
             Some v \<Rightarrow> Some v
           | None \<Rightarrow> (case find english vs of Some v \<Rightarrow> Some v | None \<Rightarrow> Some v0)))"

definition karen :: voice where
  "karen = \<lparr>vname = ascii ''Karen'', vlang = ascii ''en-AU''\<rparr>"

definition natasha :: voice where
  "natasha =
     \<lparr>vname = ascii ''Microsoft Natasha Online (Natural) - English (Australia)'',
      vlang = ascii ''en-AU''\<rparr>"

definition thomas :: voice where
  "thomas = \<lparr>vname = ascii ''Thomas'', vlang = ascii ''fr-FR''\<rparr>"

text \<open>\<open>x\<close> is the first element of \<open>xs\<close> that satisfies \<open>P\<close>.\<close>

definition first_with :: "('a \<Rightarrow> bool) \<Rightarrow> 'a list \<Rightarrow> 'a \<Rightarrow> bool" where
  "first_with P xs x \<longleftrightarrow> (\<exists>i < length xs. xs ! i = x \<and> P x \<and> (\<forall>j < i. \<not> P (xs ! j)))"

subsection \<open>The discipline of starts\<close>

text \<open>
  \<open>starts_ok\<close>: every call of the listener's \<open>start\<close> in the trace was made at an
  instant when neither flag was set. \<open>handovers_ok\<close>: every utterance handed to the
  speaker was handed over at an instant when \<open>isRecording\<close> was not set.
\<close>

definition starts_ok :: "(effect \<times> bool \<times> bool) list \<Rightarrow> bool" where
  "starts_ok tr = list_all (\<lambda>(e, rec, spk). e \<noteq> RecStart \<or> (\<not> rec \<and> \<not> spk)) tr"

fun is_handover :: "effect \<Rightarrow> bool" where
  "is_handover (SynthSpeak u) = True"
| "is_handover e = False"

definition handovers_ok :: "(effect \<times> bool \<times> bool) list \<Rightarrow> bool" where
  "handovers_ok tr = list_all (\<lambda>(e, rec, spk). \<not> is_handover e \<or> \<not> rec) tr"

text \<open>
  The user starts the microphone by hand and the listener reports its start; the user
  then clicks the icon of the greeting, and the timer of \<open>speakText\<close> fires before the
  listener has answered the stop request with its \<open>end\<close> callback.
\<close>

definition handover_while_listening :: state where
  "handover_while_listening =
     run [UToggleVoiceInput, RecOnStart, UIconClick (JStr (ascii ''Hi'')),
          TimerFires 100 TSpeakUtterance]
       loaded_state"

subsection \<open>Notions about the cleaned text\<close>




definition lead :: "jsstring \<Rightarrow> nat" where
  "lead t = length (takeWhile (\<lambda>c. c = newline) t)"



text \<open>
  No listed emoji occurs in a text (\<open>pattern_free\<close>); no bar, no bold marker and no run
  of three newlines occurs in it (\<open>calm\<close>); none of the twelve emoji, no bar and no bold
  marker occurs in it (\<open>decoration_free\<close>).
\<close>

definition pattern_free :: "jsstring \<Rightarrow> bool" where
  "pattern_free t \<longleftrightarrow> \<not> list_ex (includes_js t) emoji_pats"














section \<open>Properties\<close>

lemmas op_defs = showNotification_def updateVoiceStatus_def hideVoiceStatus_def
  stopRecording_def initSpeechRecognition_def startListening_def recognition_stop_def
  emit_def setTimeout_def effects_def emitted_def addMessage_def showLoading_def

lemmas run_defs = init_state_def icon_click_def speakText_def seq_def try_catch_def
  utt_onstart_def utt_onend_def utt_onerror_def rec_onstart_def rec_onresult_def
  rec_onerror_def rec_onend_def toggleVoiceInput_def toggleAutoSpeak_def
  toggleContinuousMode_def stopSpeaking_def new_utterance_def preferredVoice_def
  sendMessage_def sendMessage_resume_def chat_try_def await_json_def updateSessionInfo_def
  startNewSession_def startNewSession_resume_def session_try_def onload_resume_def
  restartSession_def

lemmas more_defs = scheduled_def restarts_scheduled_def wf_def

lemmas prim_defs = emit_def setTimeout_def showNotification_def updateVoiceStatus_def
  hideVoiceStatus_def stopRecording_def addMessage_def showLoading_def initSpeechRecognition_def
  recognition_stop_def stopSpeaking_def startListening_def seq_def

subsection \<open>The four passes of the text cleaning\<close>

text \<open>
  What each pass leaves: no pass adds a code unit other than a newline; the bar pass
  leaves no bar, the emoji pass no warning sign, the bold pass no pair of stars, and the
  newline pass no run of three newlines. The emoji pass deletes exactly the emoji at
  which a text is cut by \<open>emoji_segments\<close>; the first three passes leave a run of
  newlines alone and work on what stands before it and behind it separately; the
  passes after the first only delete bars, stars and newlines, which keeps a \<open>good\<close>
  text \<open>good\<close>.
\<close>

lemma set_delete_matches: "set (delete_matches pats s) \<subseteq> set s"
proof (induction pats s rule: delete_matches.induct)
  case (1 pats) show ?case by simp
next
  case (2 pats x xs)
  show ?case
  proof (cases "first_match pats (x # xs)")
    case None with 2 show ?thesis by auto
  next
    case (Some p)
    show ?thesis
    proof (cases "p = []")
      case True with Some 2 show ?thesis by auto
    next
      case False
      with Some 2 have "set (delete_matches pats (drop (length p) (x # xs))) \<subseteq> set (drop (length p) (x # xs))" by simp
      also have "\<dots> \<subseteq> set (x # xs)" by (rule set_drop_subset)
      finally show ?thesis using Some False by simp
    qed
  qed
qed














lemma lead_simps [simp]:
  "lead [] = 0" "lead (newline # xs) = Suc (lead xs)" "x \<noteq> newline \<Longrightarrow> lead (x # xs) = 0"
  by (simp_all add: lead_def)

lemma lead_dropWhile [simp]: "lead (dropWhile (\<lambda>c. c = newline) xs) = 0"
  by (induction xs) (auto simp add: lead_def)











lemma pattern_free_Nil [simp]: "pattern_free []"
  by (simp add: pattern_free_def emoji_pats_def)











































































subsection \<open>Toggling the voice input while the speaker is active\<close>

text \<open>
  C8. When \<open>toggleVoiceInput\<close> is called while \<open>isSpeaking\<close> is set and \<open>isRecording\<close> is
  not, it returns without a call to the listener's \<open>start\<close>, and both flags are as they
  were. The only thing it can do is look for the listener when there is none yet: in a
  browser without speech recognition that shows the notification, twice.
\<close>

theorem toggleVoiceInput_while_speaking:
  assumes "isSpeaking s" and "\<not> isRecording s"
  shows "fst (toggleVoiceInput s) = None
       \<and> \<not> isRecording (snd (toggleVoiceInput s))
       \<and> isSpeaking (snd (toggleVoiceInput s))
       \<and> take (length (effects s)) (effects (snd (toggleVoiceInput s))) = effects s
       \<and> RecStart \<notin> set (emitted s (snd (toggleVoiceInput s)))
       \<and> emitted s (snd (toggleVoiceInput s)) =
           (if recognition s \<or> recSupported s then []
            else [Notify RecognitionUnsupported Error, Notify RecognitionUnsupported Error])"
  using assms by (simp add: toggleVoiceInput_def op_defs Let_def)

theorem toggleVoiceInput_while_speaking_witness:
  "isSpeaking speaking_state \<and> \<not> isRecording speaking_state
   \<and> emitted speaking_state (snd (toggleVoiceInput speaking_state)) = []
   \<and> \<not> isRecording (snd (toggleVoiceInput speaking_state))"
  using toggleVoiceInput_while_speaking [of speaking_state]
  by (simp add: speaking_state_def loaded_state_def run_defs op_defs Let_def)

subsection \<open>Switching continuous mode on\<close>

text \<open>
  C5, as stated, fails: in \<open>speaking_state\<close> continuous mode is off and the speaker is
  active; \<open>toggleContinuousMode\<close> calls \<open>startListening\<close>, whose guard on \<open>isSpeaking\<close>
  returns before the listener's \<open>start\<close>, so no start is requested.
\<close>

theorem enable_continuous_while_speaking_counterexample:
  "\<not> continuousMode speaking_state
   \<and> RecStart \<notin> set (emitted speaking_state (snd (toggleContinuousMode speaking_state)))"
  by (simp add: speaking_state_def loaded_state_def run_defs op_defs Let_def)

text \<open>
  C5, amended. When \<open>toggleContinuousMode\<close> is called while \<open>continuousMode\<close> is off, it
  returns with \<open>continuousMode\<close> and \<open>autoSpeak\<close> both on, whatever \<open>autoSpeak\<close> was,
  and it calls \<open>startListening\<close> at once; the listener's \<open>start\<close> is requested exactly
  when the listener exists or can be created, the speaker is not active and the listener
  is not active already.
\<close>

theorem enable_continuous:
  assumes "\<not> continuousMode s"
  shows "fst (toggleContinuousMode s) = None
       \<and> continuousMode (snd (toggleContinuousMode s))
       \<and> autoSpeak (snd (toggleContinuousMode s))
       \<and> emitted s (snd (toggleContinuousMode s)) =
            [ContinuousButton True]
            @ (if autoSpeak s then [] else [AutoSpeakIndicator True])
            @ [Notify ContinuousEnabled Success]
            @ (if recognition s \<or> recSupported s then []
               else [Notify RecognitionUnsupported Error])
            @ (if (recognition s \<or> recSupported s) \<and> \<not> isSpeaking s \<and> \<not> isRecording s
               then [RecStart] else [])"
  using assms by (simp add: toggleContinuousMode_def op_defs Let_def)

theorem enable_continuous_witness:
  "\<not> continuousMode (init_state True True [])
   \<and> autoSpeak (snd (toggleContinuousMode (init_state True True [])))
   \<and> emitted (init_state True True []) (snd (toggleContinuousMode (init_state True True [])))
      = [ContinuousButton True, AutoSpeakIndicator True, Notify ContinuousEnabled Success,
         RecStart]"
  using enable_continuous [of "init_state True True []"]
  by (simp add: init_state_def)

subsection \<open>Switching continuous mode off\<close>

text \<open>
  Once \<open>isRecording\<close> is set, it stays set through every event other than the
  listener's \<open>end\<close> and \<open>error\<close> callbacks: only \<open>stopRecording\<close> clears it, and only
  those two handlers call it.
\<close>

lemma rec_seq:
  "isRecording (snd r) \<Longrightarrow> (\<And>s. isRecording s \<Longrightarrow> isRecording (snd (f s)))
   \<Longrightarrow> isRecording (snd (seq r f))"
  by (cases r) (auto simp add: seq_def split: option.splits)

lemma rec_try_catch:
  "isRecording (snd r) \<Longrightarrow> (\<And>s. isRecording s \<Longrightarrow> isRecording (snd (h s)))
   \<Longrightarrow> isRecording (snd (try_catch r h))"
  by (cases r) (auto simp add: try_catch_def split: option.splits)

lemma rec_startListening: "isRecording s \<Longrightarrow> isRecording (startListening s)"
  by (auto simp add: prim_defs Let_def)

lemma rec_stopSpeaking: "isRecording s \<Longrightarrow> isRecording (snd (stopSpeaking s))"
  by (auto simp add: prim_defs)

lemma rec_speakText: "isRecording s \<Longrightarrow> isRecording (snd (speakText txt s))"
  by (auto simp add: speakText_def prim_defs Let_def split: jsval.splits)

lemma rec_toggles:
  "isRecording s \<Longrightarrow> isRecording (snd (toggleVoiceInput s))"
  "isRecording s \<Longrightarrow> isRecording (snd (toggleAutoSpeak s))"
  "isRecording s \<Longrightarrow> isRecording (snd (toggleContinuousMode s))"
  by (auto simp add: toggleVoiceInput_def toggleAutoSpeak_def toggleContinuousMode_def
        prim_defs Let_def)

lemma rec_prims [simp]:
  "isRecording (emit e s) = isRecording s"
  "isRecording (setTimeout t d s) = isRecording s"
  "isRecording (showNotification m l s) = isRecording s"
  by (simp_all add: emit_def setTimeout_def showNotification_def)

lemma rec_icon_click: "isRecording s \<Longrightarrow> isRecording (snd (icon_click txt s))"
  by (auto simp add: icon_click_def intro!: rec_seq rec_stopSpeaking rec_speakText)

lemma rec_updateSessionInfo: "isRecording s \<Longrightarrow> isRecording (snd (updateSessionInfo s))"
  by (auto simp add: updateSessionInfo_def split: sum.splits)

lemma rec_sendMessage: "isRecording s \<Longrightarrow> isRecording (sendMessage s)"
  by (simp add: sendMessage_def Let_def addMessage_def showLoading_def)

lemma rec_chat_try: "isRecording s \<Longrightarrow> isRecording (snd (chat_try r s))"
  by (auto simp add: chat_try_def Let_def addMessage_def
      intro!: rec_seq rec_speakText rec_updateSessionInfo split: sum.splits)

lemma rec_sendMessage_resume: "isRecording s \<Longrightarrow> isRecording (sendMessage_resume r s)"
  by (auto simp add: sendMessage_resume_def showLoading_def addMessage_def
      intro!: rec_try_catch rec_chat_try)

lemma rec_session_try: "isRecording s \<Longrightarrow> isRecording (snd (session_try r s))"
  by (auto simp add: session_try_def Let_def addMessage_def
      intro!: rec_seq rec_speakText rec_updateSessionInfo split: sum.splits)

lemma rec_startNewSession_resume:
  "isRecording s \<Longrightarrow> isRecording (startNewSession_resume r s)"
  by (auto simp add: startNewSession_resume_def intro!: rec_try_catch rec_session_try)

lemma rec_restartSession: "isRecording s \<Longrightarrow> isRecording (snd (restartSession c s))"
  by (auto simp add: restartSession_def startNewSession_def
      intro!: rec_seq rec_stopSpeaking rec_toggles)

lemma rec_fire: "isRecording s \<Longrightarrow> isRecording (fire t s)"
  by (cases t) (auto simp add: hideVoiceStatus_def updateVoiceStatus_def
      intro!: rec_sendMessage rec_startListening)

lemma rec_handlers:
  "isRecording s \<Longrightarrow> isRecording (snd (rec_onstart s))"
  "isRecording s \<Longrightarrow> isRecording (rec_onresult tr s)"
  "isRecording s \<Longrightarrow> isRecording (utt_onstart s)"
  "isRecording s \<Longrightarrow> isRecording (utt_onend s)"
  "isRecording s \<Longrightarrow> isRecording (utt_onerror err s)"
  "isRecording s \<Longrightarrow> isRecording (initSpeechRecognition s)"
  by (auto simp add: rec_onstart_def rec_onresult_def utt_onstart_def utt_onend_def
        utt_onerror_def Let_def prim_defs)

lemma listening_persists:
  assumes "isRecording s" and "e \<noteq> RecOnEnd" and "\<And>err. e \<noteq> RecOnError err"
  shows "isRecording (step e s)"
proof (cases e)
  case (TimerFires d t)
  from assms(1) have "isRecording (s\<lparr>timers := remove1 (d, t) (timers s)\<rparr>)" by simp
  then have "isRecording (fire t (s\<lparr>timers := remove1 (d, t) (timers s)\<rparr>))" by (rule rec_fire)
  with TimerFires assms(1) show ?thesis by simp
qed (use assms in \<open>auto simp add: rec_toggles rec_sendMessage rec_icon_click rec_restartSession
        rec_handlers rec_sendMessage_resume rec_startNewSession_resume startNewSession_def
        onload_resume_def\<close>)


lemma listening_persists_run:
  "isRecording s \<Longrightarrow> RecOnEnd \<notin> set evs \<Longrightarrow> (\<forall>err. RecOnError err \<notin> set evs) \<Longrightarrow>
   isRecording (run evs s)"
proof (induction evs arbitrary: s)
  case Nil
  then show ?case by simp
next
  case (Cons e evs)
  from Cons.prems have "isRecording (step e s)"
    by (intro listening_persists) auto
  moreover from Cons.prems have "RecOnEnd \<notin> set evs" and "\<forall>err. RecOnError err \<notin> set evs"
    by auto
  ultimately have "isRecording (run evs (step e s))" by (rule Cons.IH)
  then show ?case by simp
qed

text \<open>
  C4, as stated, fails for the listener. In \<open>listening_state\<close> continuous mode is on and
  the listener is active; \<open>toggleContinuousMode\<close> sends the listener a stop request
  and returns with \<open>isRecording\<close> still set, and it is still set after the next event,
  the result the listener delivers before it ends.
\<close>

theorem disable_continuous_listener_counterexample:
  "continuousMode listening_state
   \<and> isRecording (snd (toggleContinuousMode listening_state))
   \<and> isRecording (step (RecOnResult (ascii ''hello''))
        (snd (toggleContinuousMode listening_state)))"
  by (simp add: listening_state_def run_defs op_defs Let_def)


text \<open>
  C4, amended. When \<open>toggleContinuousMode\<close> is called while \<open>continuousMode\<close> is on, in
  a state the page can be in (\<open>wf\<close>), it shows the mode as off, sends the listener a stop
  request when \<open>isRecording\<close> is set, cancels the speaker and clears \<open>isSpeaking\<close>:
  the speaker is idle when the call ends. It leaves \<open>isRecording\<close> and \<open>autoSpeak\<close> as
  they were. Where the listener was active, \<open>isRecording\<close> stays set through every
  later event until the listener's \<open>end\<close> or \<open>error\<close> callback runs; the \<open>end\<close>
  callback clears it, shows the microphone as off and schedules no restart. In a browser
  without speech synthesis the call ends in the \<open>TypeError\<close> of \<open>stopSpeaking\<close>, after
  the stop request.
\<close>

theorem disable_continuous:
  assumes "continuousMode s" and "wf s"
  shows "\<not> continuousMode (snd (toggleContinuousMode s))
       \<and> \<not> isSpeaking (snd (toggleContinuousMode s))
       \<and> isRecording (snd (toggleContinuousMode s)) = isRecording s
       \<and> autoSpeak (snd (toggleContinuousMode s)) = autoSpeak s
       \<and> emitted s (snd (toggleContinuousMode s)) =
            [ContinuousButton False, Notify ContinuousDisabled Info]
            @ (if isRecording s then [RecStop] else [])
            @ (if synthSupported s then [SynthCancel] else [])
       \<and> scheduled s (snd (toggleContinuousMode s)) = [(3000, THideNotification)]
       \<and> (fst (toggleContinuousMode s) = None \<longleftrightarrow> synthSupported s)
       \<and> (isRecording s \<and> RecOnEnd \<notin> set evs \<and> (\<forall>err. RecOnError err \<notin> set evs) \<longrightarrow>
            isRecording (run evs (snd (toggleContinuousMode s))))
       \<and> (isRecording s \<longrightarrow>
            \<not> isRecording (step RecOnEnd (snd (toggleContinuousMode s)))
          \<and> \<not> isSpeaking (step RecOnEnd (snd (toggleContinuousMode s)))
          \<and> emitted (snd (toggleContinuousMode s)) (step RecOnEnd (snd (toggleContinuousMode s)))
              = [RecordingIndicator False]
          \<and> scheduled (snd (toggleContinuousMode s))
               (step RecOnEnd (snd (toggleContinuousMode s))) = [])"
proof -
  let ?s' = "snd (toggleContinuousMode s)"
  have a: "\<not> continuousMode ?s' \<and> \<not> isSpeaking ?s' \<and> isRecording ?s' = isRecording s
       \<and> autoSpeak ?s' = autoSpeak s
       \<and> emitted s ?s' =
            [ContinuousButton False, Notify ContinuousDisabled Info]
            @ (if isRecording s then [RecStop] else [])
            @ (if synthSupported s then [SynthCancel] else [])
       \<and> scheduled s ?s' = [(3000, THideNotification)]
       \<and> (fst (toggleContinuousMode s) = None \<longleftrightarrow> synthSupported s)
       \<and> (isRecording s \<longrightarrow> recognition ?s')"
    using assms
    by (auto simp add: toggleContinuousMode_def stopSpeaking_def seq_def op_defs more_defs Let_def)
  have b: "isRecording (run evs ?s')"
    if "isRecording s" and "RecOnEnd \<notin> set evs" and "\<forall>err. RecOnError err \<notin> set evs"
    using that a by (intro listening_persists_run) auto
  have c: "\<not> isRecording (step RecOnEnd ?s') \<and> \<not> isSpeaking (step RecOnEnd ?s')
          \<and> emitted ?s' (step RecOnEnd ?s') = [RecordingIndicator False]
          \<and> scheduled ?s' (step RecOnEnd ?s') = []"
    if "isRecording s"
    using that a by (auto simp add: rec_onend_def op_defs more_defs Let_def)
  from a b c show ?thesis by blast
qed


theorem disable_continuous_witness:
  "continuousMode listening_state \<and> wf listening_state \<and> isRecording listening_state
   \<and> emitted listening_state (snd (toggleContinuousMode listening_state))
       = [ContinuousButton False, Notify ContinuousDisabled Info, RecStop, SynthCancel]
   \<and> \<not> isSpeaking (snd (toggleContinuousMode listening_state))
   \<and> isRecording (snd (toggleContinuousMode listening_state))
   \<and> isRecording (run [RecOnResult (ascii ''hello''), TimerFires 2000 THideVoiceStatus]
        (snd (toggleContinuousMode listening_state)))
   \<and> \<not> isRecording (step RecOnEnd (snd (toggleContinuousMode listening_state)))"
  using disable_continuous [of listening_state
      "[RecOnResult (ascii ''hello''), TimerFires 2000 THideVoiceStatus]"]
  by (simp add: listening_state_def run_defs op_defs more_defs Let_def)

subsection \<open>The listener reports that it heard no speech\<close>

text \<open>
  C2, as stated, fails: in \<open>listening_state\<close> continuous mode is on, and the error
  handler, called with \<open>no-speech\<close>, schedules no restart at all: its restart is guarded
  by \<open>err \<noteq> 'no-speech'\<close> as well as by \<open>err \<noteq> 'aborted'\<close>.
\<close>

theorem no_speech_counterexample:
  "continuousMode listening_state
   \<and> \<not> restarts_scheduled listening_state (rec_onerror (ascii ''no-speech'') listening_state) = 1"
  by (simp add: listening_state_def run_defs op_defs more_defs Let_def ascii_def)

text \<open>
  C2, amended. When the error handler of the listener runs with \<open>no-speech\<close> while
  \<open>continuousMode\<close> is on, it shows no error, clears \<open>isRecording\<close> and schedules
  nothing; the \<open>end\<close> handler that follows schedules one restart, after 500 ms, when
  the speaker is idle, and none when it is active. When the handler runs with
  \<open>no-speech\<close> while \<open>continuousMode\<close> is off, it shows the error in the voice status
  line and schedules nothing.
\<close>

theorem no_speech_error:
  "(continuousMode s \<longrightarrow>
      emitted s (rec_onerror (ascii ''no-speech'') s) = [RecordingIndicator False]
    \<and> scheduled s (rec_onerror (ascii ''no-speech'') s) = []
    \<and> \<not> isRecording (rec_onerror (ascii ''no-speech'') s)
    \<and> scheduled (rec_onerror (ascii ''no-speech'') s)
         (rec_onend (rec_onerror (ascii ''no-speech'') s))
       = (if isSpeaking s then [] else [(500, TRestartAfterRecEnd)]))
   \<and> (\<not> continuousMode s \<longrightarrow>
      emitted s (rec_onerror (ascii ''no-speech'') s)
        = [VoiceStatus (RecognitionError (ascii ''no-speech'')) Error, RecordingIndicator False]
    \<and> scheduled s (rec_onerror (ascii ''no-speech'') s) = [])"
  by (simp add: rec_onerror_def rec_onend_def op_defs more_defs Let_def)

theorem no_speech_error_witness:
  "continuousMode listening_state \<and> \<not> isSpeaking listening_state
   \<and> emitted listening_state (rec_onerror (ascii ''no-speech'') listening_state)
       = [RecordingIndicator False]
   \<and> scheduled (rec_onerror (ascii ''no-speech'') listening_state)
         (rec_onend (rec_onerror (ascii ''no-speech'') listening_state))
       = [(500, TRestartAfterRecEnd)]
   \<and> \<not> continuousMode (init_state True True [])
   \<and> emitted (init_state True True []) (rec_onerror (ascii ''no-speech'') (init_state True True []))
        = [VoiceStatus (RecognitionError (ascii ''no-speech'')) Error, RecordingIndicator False]"
  using no_speech_error [of listening_state] no_speech_error [of "init_state True True []"]
  by (simp add: listening_state_def run_defs op_defs more_defs Let_def)

subsection \<open>A reply of the backend is spoken\<close>




subsection \<open>A failed chat request\<close>

text \<open>
  Where the fetch is rejected, or the body of the response is not JSON, the fallback
  reply is shown, no request is made and the session identifier and the patient data
  are as before.
\<close>

lemma chat_rejected_keeps_session:
  assumes "r = NetworkFailure \<or> r = Response st None"
  shows "sessionId (sendMessage_resume r s) = sessionId s
       \<and> patientData (sendMessage_resume r s) = patientData s
       \<and> emitted s (sendMessage_resume r s)
           = [AddMessage Doctor (JStr fallback_reply), ShowLoading False]"
  using assms
  by (auto simp add: sendMessage_resume_def chat_try_def await_json_def try_catch_def op_defs)

text \<open>
  C7 at the failing input. The backend answers \<open>POST /chat\<close> with status 404 and a JSON
  body that has neither \<open>session_id\<close> nor \<open>patient_data\<close>. \<open>sendMessage\<close> does not look
  at the status: it assigns \<open>undefined\<close> to \<open>sessionId\<close> and to \<open>patientData\<close>, and
  only then \<open>updateSessionInfo\<close> throws and the fallback reply is shown. The session
  identifier \<open>s1\<close> is lost.
\<close>

theorem chat_error_response_overwrites_session:
  "sessionId sent_state = JStr (ascii ''s1'') \<and> patientData sent_state = JObj []
   \<and> sessionId (sendMessage_resume not_found_response sent_state) = JUndefined
   \<and> patientData (sendMessage_resume not_found_response sent_state) = JUndefined
   \<and> emitted sent_state (sendMessage_resume not_found_response sent_state)
       = [AddMessage Doctor (JStr fallback_reply), ShowLoading False]"
  by (simp add: sent_state_def loaded_state_def not_found_response_def run_defs op_defs Let_def
       js_trim_def is_js_space_def ascii_def)

subsection \<open>The timers that restart the listener\<close>

text \<open>
  The restarts scheduled by the listener's \<open>error\<close> and \<open>end\<close> handlers and by the
  utterance's \<open>end\<close> handler start nothing once continuous mode is off or while the
  speaker is active.
\<close>

lemma other_restarts_recheck:
  assumes "t = TRestartAfterRecError \<or> t = TRestartAfterRecEnd \<or> t = TRestartAfterSpeechEnd"
    and "\<not> continuousMode s \<or> isSpeaking s"
  shows "RecStart \<notin> set (emitted s (fire t s))"
  using assms by (auto simp add: op_defs Let_def split: if_splits)

text \<open>
  C3 at the failing input. The restart scheduled by the utterance's \<open>error\<close> handler
  checks \<open>continuousMode\<close> when it is scheduled and not when it fires: in
  \<open>mode_off_before_restart\<close> continuous mode has been switched off while the timer was
  pending, and the timer starts the listener all the same.
\<close>

theorem speech_error_restart_ignores_mode:
  "\<not> continuousMode mode_off_before_restart
   \<and> (1000, TRestartAfterSpeechError) \<in> set (timers mode_off_before_restart)
   \<and> emitted mode_off_before_restart
        (step (TimerFires 1000 TRestartAfterSpeechError) mode_off_before_restart) = [RecStart]"
  by (simp add: mode_off_before_restart_def loaded_state_def run_defs op_defs Let_def ascii_def)

subsection \<open>Voice selection\<close>

lemma find_first_with: "find P xs = Some x \<longleftrightarrow> first_with P xs x"
  by (auto simp add: find_Some_iff first_with_def)

text \<open>The utterance \<open>speakText\<close> builds carries the voice \<open>preferredVoice\<close> selects.\<close>

lemma speakText_utterance:
  assumes "synthSupported s" and "wf s"
  shows "currentUtterance (snd (speakText (JStr t) s))
           = Some (new_utterance (cleanText t) (voices s))
       \<and> uvoice (new_utterance (cleanText t) (voices s)) = preferredVoice (voices s)"
  using assms
  by (auto simp add: speakText_def seq_def new_utterance_def op_defs more_defs Let_def)

text \<open>
  C9, as stated, fails for both readings of ``English voice''. Read as ``the language
  tag contains \<open>en\<close>'': of an Australian voice named Karen followed by an Australian
  voice with \<open>Microsoft\<close> in its name the script takes the first, since its first
  preference asks for \<open>en-US\<close> or \<open>en-GB\<close>, where the specification's words take the
  second. Read as ``the language tag contains \<open>en-US\<close> or \<open>en-GB\<close>'': of a French voice
  followed by the Australian one the script takes the second, since its second
  preference asks for \<open>en\<close> only, where the specification's words take the first.
\<close>

theorem voice_selection_counterexample:
  "preferredVoice [karen, natasha] \<noteq> spec_preferredVoice lang_has_en [karen, natasha]
   \<and> preferredVoice [thomas, karen] \<noteq> spec_preferredVoice lang_en_US_GB [thomas, karen]"
  by (simp add: preferredVoice_def spec_preferredVoice_def preferred_def lang_has_en_def
      lang_en_US_GB_def name_preferred_def karen_def natasha_def thomas_def ascii_def)

text \<open>
  C9, amended. For every non-empty list of voices the selection takes the first voice
  whose language tag contains \<open>en-US\<close> or \<open>en-GB\<close> and whose name contains one of the
  five names; failing that, the first voice whose language tag contains \<open>en\<close>; failing
  that, the first voice of the list; and the utterance is built with that voice.
\<close>

theorem voice_selection:
  assumes "vs \<noteq> []"
  shows "\<exists>v. preferredVoice vs = Some v \<and> v \<in> set vs
          \<and> (if \<exists>u \<in> set vs. preferred u then first_with preferred vs v
              else if \<exists>u \<in> set vs. lang_has_en u then first_with lang_has_en vs v
              else v = hd vs)
          \<and> uvoice (new_utterance t vs) = Some v"
proof (cases vs)
  case Nil
  with assms show ?thesis by simp
next
  case (Cons v0 rest)
  show ?thesis
  proof (cases "find preferred vs")
    case (Some v)
    then have "first_with preferred vs v"
      by (simp add: find_first_with)
    moreover from Some have "v \<in> set vs" and "preferred v"
      by (auto simp: find_Some_iff)
    ultimately show ?thesis
      using Some Cons by (auto simp add: preferredVoice_def new_utterance_def)
  next
    case None
    then have no_pref: "\<not> (\<exists>u \<in> set vs. preferred u)"
      by (simp add: find_None_iff)
    show ?thesis
    proof (cases "find lang_has_en vs")
      case (Some v)
      then have "first_with lang_has_en vs v"
        by (simp add: find_first_with)
      moreover from Some have "v \<in> set vs" and "lang_has_en v"
        by (auto simp: find_Some_iff)
      ultimately show ?thesis
        using Some None no_pref Cons by (auto simp add: preferredVoice_def new_utterance_def)
    next
      case no_en: None
      then have "\<not> (\<exists>u \<in> set vs. lang_has_en u)"
        by (simp add: find_None_iff)
      then show ?thesis
        using None no_en no_pref Cons by (auto simp add: preferredVoice_def new_utterance_def)
    qed
  qed
qed

theorem voice_selection_witness:
  "[thomas, karen] \<noteq> []
   \<and> (\<exists>v. preferredVoice [thomas, karen] = Some v \<and> v \<in> set [thomas, karen]
          \<and> uvoice (new_utterance [] [thomas, karen]) = Some v)"
  using voice_selection [of "[thomas, karen]" "[]"] by auto

subsection \<open>The listener is started only while both capabilities are idle\<close>

text \<open>
  Every function of the script keeps \<open>starts_ok\<close>: the only call of the listener's
  \<open>start\<close> is the one in \<open>startListening\<close>, behind the tests of \<open>isSpeaking\<close> and
  \<open>isRecording\<close>.
\<close>

lemma ok_emit [simp]:
  "starts_ok (trace (emit e s)) \<longleftrightarrow>
     starts_ok (trace s) \<and> (e = RecStart \<longrightarrow> \<not> isRecording s \<and> \<not> isSpeaking s)"
  by (auto simp add: emit_def starts_ok_def)

lemma ok_setTimeout [simp]: "starts_ok (trace (setTimeout t d s)) = starts_ok (trace s)"
  by (simp add: setTimeout_def)

lemma ok_showNotification [simp]:
  "starts_ok (trace (showNotification m l s)) = starts_ok (trace s)"
  by (simp add: showNotification_def)

lemma trace_setTimeout [simp]: "trace (setTimeout t d s) = trace s"
  by (simp add: setTimeout_def)

lemma ok_startListening: "starts_ok (trace s) \<Longrightarrow> starts_ok (trace (startListening s))"
  by (simp add: startListening_def initSpeechRecognition_def Let_def)

lemma ok_stopSpeaking: "starts_ok (trace s) \<Longrightarrow> starts_ok (trace (snd (stopSpeaking s)))"
  by (simp add: stopSpeaking_def)

lemma ok_seq:
  "starts_ok (trace (snd r)) \<Longrightarrow> (\<And>s. starts_ok (trace s) \<Longrightarrow> starts_ok (trace (snd (f s))))
   \<Longrightarrow> starts_ok (trace (snd (seq r f)))"
  by (cases r) (auto simp add: seq_def split: option.splits)

lemma ok_try_catch:
  "starts_ok (trace (snd r)) \<Longrightarrow> (\<And>s. starts_ok (trace s) \<Longrightarrow> starts_ok (trace (snd (h s))))
   \<Longrightarrow> starts_ok (trace (snd (try_catch r h)))"
  by (cases r) (auto simp add: try_catch_def split: option.splits)

lemma ok_recognition_stop:
  "starts_ok (trace s) \<Longrightarrow> starts_ok (trace (snd (recognition_stop s)))"
  by (simp add: recognition_stop_def)

lemma ok_speakText: "starts_ok (trace s) \<Longrightarrow> starts_ok (trace (snd (speakText txt s)))"
  by (auto simp add: speakText_def Let_def updateVoiceStatus_def recognition_stop_def
      intro!: ok_seq split: jsval.splits)

lemma ok_toggleVoiceInput:
  "starts_ok (trace s) \<Longrightarrow> starts_ok (trace (snd (toggleVoiceInput s)))"
  by (auto simp add: toggleVoiceInput_def Let_def recognition_stop_def initSpeechRecognition_def
      intro!: ok_startListening)

lemma ok_toggleAutoSpeak:
  "starts_ok (trace s) \<Longrightarrow> starts_ok (trace (snd (toggleAutoSpeak s)))"
  by (auto simp add: toggleAutoSpeak_def Let_def stopSpeaking_def seq_def)

lemma ok_toggleContinuousMode:
  "starts_ok (trace s) \<Longrightarrow> starts_ok (trace (snd (toggleContinuousMode s)))"
  by (auto simp add: toggleContinuousMode_def Let_def recognition_stop_def
      intro!: ok_startListening ok_seq ok_stopSpeaking)

lemma ok_icon_click: "starts_ok (trace s) \<Longrightarrow> starts_ok (trace (snd (icon_click txt s)))"
  by (auto simp add: icon_click_def intro!: ok_seq ok_stopSpeaking ok_speakText)

lemma ok_updateSessionInfo:
  "starts_ok (trace s) \<Longrightarrow> starts_ok (trace (snd (updateSessionInfo s)))"
  by (auto simp add: updateSessionInfo_def split: sum.splits)

lemma ok_sendMessage: "starts_ok (trace s) \<Longrightarrow> starts_ok (trace (sendMessage s))"
  by (simp add: sendMessage_def Let_def addMessage_def showLoading_def)

lemma ok_chat_try: "starts_ok (trace s) \<Longrightarrow> starts_ok (trace (snd (chat_try r s)))"
  by (auto simp add: chat_try_def Let_def addMessage_def
      intro!: ok_seq ok_speakText ok_updateSessionInfo split: sum.splits)

lemma ok_sendMessage_resume:
  "starts_ok (trace s) \<Longrightarrow> starts_ok (trace (sendMessage_resume r s))"
  by (auto simp add: sendMessage_resume_def showLoading_def addMessage_def
      intro!: ok_try_catch ok_chat_try)

lemma ok_session_try: "starts_ok (trace s) \<Longrightarrow> starts_ok (trace (snd (session_try r s)))"
  by (auto simp add: session_try_def Let_def addMessage_def
      intro!: ok_seq ok_speakText ok_updateSessionInfo split: sum.splits)

lemma ok_startNewSession_resume:
  "starts_ok (trace s) \<Longrightarrow> starts_ok (trace (startNewSession_resume r s))"
  by (auto simp add: startNewSession_resume_def intro!: ok_try_catch ok_session_try)

lemma ok_restartSession:
  "starts_ok (trace s) \<Longrightarrow> starts_ok (trace (snd (restartSession c s)))"
  by (auto simp add: restartSession_def startNewSession_def
      intro!: ok_seq ok_stopSpeaking ok_toggleContinuousMode)

lemma ok_fire: "starts_ok (trace s) \<Longrightarrow> starts_ok (trace (fire t s))"
  by (cases t) (auto simp add: hideVoiceStatus_def updateVoiceStatus_def
      intro!: ok_sendMessage ok_startListening)

lemma ok_rec_handlers:
  "starts_ok (trace s) \<Longrightarrow> starts_ok (trace (snd (rec_onstart s)))"
  "starts_ok (trace s) \<Longrightarrow> starts_ok (trace (rec_onresult tr s))"
  "starts_ok (trace s) \<Longrightarrow> starts_ok (trace (rec_onerror err s))"
  "starts_ok (trace s) \<Longrightarrow> starts_ok (trace (rec_onend s))"
  by (auto simp add: rec_onstart_def rec_onresult_def rec_onerror_def rec_onend_def Let_def
       updateVoiceStatus_def stopRecording_def stopSpeaking_def)

lemma ok_utt_handlers:
  "starts_ok (trace s) \<Longrightarrow> starts_ok (trace (utt_onstart s))"
  "starts_ok (trace s) \<Longrightarrow> starts_ok (trace (utt_onend s))"
  "starts_ok (trace s) \<Longrightarrow> starts_ok (trace (utt_onerror err s))"
  by (auto simp add: utt_onstart_def utt_onend_def utt_onerror_def Let_def
       updateVoiceStatus_def hideVoiceStatus_def)

lemma ok_step: "starts_ok (trace s) \<Longrightarrow> starts_ok (trace (step e s))"
  by (cases e)
     (auto simp add: ok_toggleVoiceInput ok_toggleAutoSpeak ok_toggleContinuousMode ok_sendMessage
        ok_icon_click ok_restartSession ok_rec_handlers ok_utt_handlers ok_fire
        ok_sendMessage_resume ok_startNewSession_resume startNewSession_def onload_resume_def
        initSpeechRecognition_def)

lemma ok_run: "starts_ok (trace s) \<Longrightarrow> starts_ok (trace (run evs s))"
  by (induction evs arbitrary: s) (auto simp add: ok_step)

text \<open>
  C1, as stated, fails in its second half. In \<open>handover_while_listening\<close> the listener
  is flagged active when \<open>speakText\<close> runs; \<open>speakText\<close> sends it a stop request and
  schedules the hand-over, and the timer hands the utterance to the speaker while
  \<open>isRecording\<close> is still set, since only the listener's \<open>end\<close> callback clears it.
\<close>

theorem handover_counterexample:
  "\<not> (starts_ok (trace handover_while_listening)
      \<and> handovers_ok (trace handover_while_listening))"
  by (simp add: handover_while_listening_def loaded_state_def run_defs op_defs Let_def ascii_def
        starts_ok_def handovers_ok_def)

text \<open>
  C1, amended. For every sequence of events from the initial state, every call of the
  listener's \<open>start\<close> is made at an instant when neither \<open>isRecording\<close> nor
  \<open>isSpeaking\<close> is set. \<open>speakText\<close>, called while \<open>isRecording\<close> is set, sends the
  listener a stop request and schedules the hand-over of the utterance after 100 ms,
  leaving \<open>isRecording\<close> set; the hand-over itself, when the timer fires, tests nothing.
\<close>

theorem start_discipline:
  "starts_ok (trace (run evs (init_state rs ss vs)))
   \<and> (synthSupported s \<and> isRecording s \<and> recognition s \<longrightarrow>
        RecStop \<in> set (emitted s (snd (speakText (JStr t) s)))
      \<and> isRecording (snd (speakText (JStr t) s))
      \<and> scheduled s (snd (speakText (JStr t) s)) = [(100, TSpeakUtterance)])
   \<and> emitted s' (fire TSpeakUtterance s') = [SynthSpeak (currentUtterance s')]"
proof -
  have "starts_ok (trace (init_state rs ss vs))"
    by (simp add: init_state_def starts_ok_def)
  then have "starts_ok (trace (run evs (init_state rs ss vs)))"
    by (rule ok_run)
  moreover have "emitted s' (fire TSpeakUtterance s') = [SynthSpeak (currentUtterance s')]"
    by (simp add: op_defs)
  moreover have "synthSupported s \<and> isRecording s \<and> recognition s \<longrightarrow>
        RecStop \<in> set (emitted s (snd (speakText (JStr t) s)))
      \<and> isRecording (snd (speakText (JStr t) s))
      \<and> scheduled s (snd (speakText (JStr t) s)) = [(100, TSpeakUtterance)]"
    by (auto simp add: speakText_def seq_def op_defs more_defs Let_def)
  ultimately show ?thesis
    by blast
qed

theorem start_discipline_witness:
  "synthSupported listening_state \<and> isRecording listening_state \<and> recognition listening_state
   \<and> starts_ok (trace (run [UToggleContinuousMode, RecOnStart] (init_state True True [])))
   \<and> RecStop \<in> set (emitted listening_state (snd (speakText (JStr []) listening_state)))
   \<and> isRecording (snd (speakText (JStr []) listening_state))"
  using start_discipline [of "[UToggleContinuousMode, RecOnStart]" True True "[]"
      listening_state "[]" listening_state]
  by (simp add: listening_state_def run_defs op_defs Let_def)

subsection \<open>The states the page can reach\<close>

text \<open>
  \<open>wf\<close> holds in the initial state and is kept by every event, so it holds in every
  state the page can reach. The theorems that assume \<open>wf\<close> assume nothing more than
  that.
\<close>

lemma wf_simps [simp]:
  "wf (emit e s) = wf s" "wf (setTimeout t d s) = wf s" "wf (showNotification m l s) = wf s"
  by (simp_all add: wf_def emit_def setTimeout_def showNotification_def)

lemma wf_startListening: "wf s \<Longrightarrow> wf (startListening s)"
  by (auto simp add: wf_def prim_defs Let_def)

lemma wf_stopSpeaking: "wf s \<Longrightarrow> wf (snd (stopSpeaking s))"
  by (auto simp add: wf_def prim_defs)

lemma wf_seq:
  "wf (snd r) \<Longrightarrow> (\<And>s. wf s \<Longrightarrow> wf (snd (f s))) \<Longrightarrow> wf (snd (seq r f))"
  by (cases r) (auto simp add: seq_def split: option.splits)

lemma wf_try_catch:
  "wf (snd r) \<Longrightarrow> (\<And>s. wf s \<Longrightarrow> wf (snd (h s))) \<Longrightarrow> wf (snd (try_catch r h))"
  by (cases r) (auto simp add: try_catch_def split: option.splits)

lemma wf_speakText: "wf s \<Longrightarrow> wf (snd (speakText txt s))"
  by (auto simp add: speakText_def wf_def prim_defs Let_def split: jsval.splits)

lemma wf_toggleVoiceInput: "wf s \<Longrightarrow> wf (snd (toggleVoiceInput s))"
  by (auto simp add: toggleVoiceInput_def wf_def prim_defs Let_def)

lemma wf_toggleAutoSpeak: "wf s \<Longrightarrow> wf (snd (toggleAutoSpeak s))"
  by (auto simp add: toggleAutoSpeak_def wf_def prim_defs Let_def)

lemma wf_toggleContinuousMode: "wf s \<Longrightarrow> wf (snd (toggleContinuousMode s))"
  by (auto simp add: toggleContinuousMode_def wf_def prim_defs Let_def)

lemma wf_icon_click: "wf s \<Longrightarrow> wf (snd (icon_click txt s))"
  by (auto simp add: icon_click_def intro!: wf_seq wf_stopSpeaking wf_speakText)

lemma wf_updateSessionInfo: "wf s \<Longrightarrow> wf (snd (updateSessionInfo s))"
  by (auto simp add: updateSessionInfo_def split: sum.splits)

lemma wf_sendMessage: "wf s \<Longrightarrow> wf (sendMessage s)"
  by (auto simp add: sendMessage_def wf_def prim_defs Let_def)

lemma wf_session_fields [simp]:
  "wf (s\<lparr>sessionId := a\<rparr>) = wf s" "wf (s\<lparr>patientData := b\<rparr>) = wf s"
  "wf (s\<lparr>messageInput := c\<rparr>) = wf s" "wf (s\<lparr>voices := d\<rparr>) = wf s"
  "wf (s\<lparr>timers := e\<rparr>) = wf s"
  by (simp_all add: wf_def)

lemma wf_chat_try: "wf s \<Longrightarrow> wf (snd (chat_try r s))"
  by (auto simp add: chat_try_def Let_def addMessage_def
      intro!: wf_seq wf_speakText wf_updateSessionInfo split: sum.splits)

lemma wf_sendMessage_resume: "wf s \<Longrightarrow> wf (sendMessage_resume r s)"
  by (auto simp add: sendMessage_resume_def showLoading_def addMessage_def
      intro!: wf_try_catch wf_chat_try)

lemma wf_session_try: "wf s \<Longrightarrow> wf (snd (session_try r s))"
  by (auto simp add: session_try_def Let_def addMessage_def
      intro!: wf_seq wf_speakText wf_updateSessionInfo split: sum.splits)

lemma wf_startNewSession_resume: "wf s \<Longrightarrow> wf (startNewSession_resume r s)"
  by (auto simp add: startNewSession_resume_def intro!: wf_try_catch wf_session_try)

lemma wf_restartSession: "wf s \<Longrightarrow> wf (snd (restartSession c s))"
  by (auto simp add: restartSession_def startNewSession_def
      intro!: wf_seq wf_stopSpeaking wf_toggleContinuousMode)

lemma wf_fire: "wf s \<Longrightarrow> wf (fire t s)"
  by (cases t) (auto simp add: hideVoiceStatus_def updateVoiceStatus_def
      intro!: wf_sendMessage wf_startListening)

lemma wf_rec_handlers:
  "recognition s \<Longrightarrow> wf s \<Longrightarrow> wf (snd (rec_onstart s))"
  "wf s \<Longrightarrow> wf (rec_onresult tr s)"
  "wf s \<Longrightarrow> wf (rec_onerror err s)"
  "wf s \<Longrightarrow> wf (rec_onend s)"
  by (auto simp add: rec_onstart_def rec_onresult_def rec_onerror_def rec_onend_def Let_def
       wf_def prim_defs)

lemma wf_utt_handlers:
  "currentUtterance s \<noteq> None \<Longrightarrow> wf s \<Longrightarrow> wf (utt_onstart s)"
  "wf s \<Longrightarrow> wf (utt_onend s)"
  "wf s \<Longrightarrow> wf (utt_onerror err s)"
  by (auto simp add: utt_onstart_def utt_onend_def utt_onerror_def Let_def wf_def prim_defs)

lemma wf_initSpeechRecognition: "wf s \<Longrightarrow> wf (initSpeechRecognition s)"
  by (auto simp add: wf_def prim_defs)

lemma wf_step: "wf s \<Longrightarrow> wf (step e s)"
  by (cases e)
     (auto simp add: wf_toggleVoiceInput wf_toggleAutoSpeak wf_toggleContinuousMode wf_sendMessage
        wf_icon_click wf_restartSession wf_rec_handlers wf_utt_handlers wf_fire
        wf_sendMessage_resume wf_startNewSession_resume startNewSession_def onload_resume_def
        wf_initSpeechRecognition)

lemma wf_run: "wf s \<Longrightarrow> wf (run evs s)"
  by (induction evs arbitrary: s) (auto simp add: wf_step)

lemma wf_reachable: "wf (run evs (init_state rs ss vs))"
  by (rule wf_run) (simp add: wf_def init_state_def)

subsection \<open>The cleaned text\<close>





end
